theory Spec2Isabelle
  imports Complex_Main "HOL-Library.Log_Nat" "HOL-Library.Multiset"
begin

section \<open>Python values and exceptions\<close>

text \<open>
  The checker is untyped Python, so a policy handed to the evaluator can be any object.
  The values that matter are \<open>None\<close>, booleans, integers, floats, strings, lists and
  dictionaries with string keys. A float is represented by the exact rational value of
  the binary64 number it holds. A dictionary that is only read through \<open>.get\<close> is a
  map; the baseline, which is iterated in insertion order, is an association list.
\<close>

datatype pyval =
    PNone
  | PBool bool
  | PInt int
  | PFloat rat
  | PStr string
  | PList "pyval list"
  | PDict "string \<Rightarrow> pyval option"

datatype error = AttributeError | ZeroDivisionError | TypeError

section \<open>Binary64 arithmetic on exact values\<close>

text \<open>
  Line 33 of the evaluator computes \<open>round((compliant_count / total_controls) * 100, 2)\<close>
  in floating point. Each of the three operations is correctly rounded in CPython: the
  true division of two integers, the product of two floats, and \<open>round(x, 2)\<close>, which
  rounds the exact value of \<open>x\<close> to two decimals (ties to even) and converts that
  decimal back to the nearest float. \<open>double_of_rat\<close> is rounding to the nearest
  binary64 number, ties to even, for magnitudes in the normal range; every number the
  evaluator computes lies there (quotients of a count by the number of controls, and
  percentages up to 100).
\<close>

definition pow2 :: "int \<Rightarrow> rat" where
  "pow2 e = (if 0 \<le> e then 2 ^ nat e else 1 / 2 ^ nat (- e))"

definition round_half_even :: "rat \<Rightarrow> int" where
  "round_half_even q =
     (let f = \<lfloor>q\<rfloor>; r = q - of_int f
      in if r < 1 / 2 then f
         else if 1 / 2 < r then f + 1
         else if even f then f else f + 1)"

definition binary_exponent :: "rat \<Rightarrow> int" where
  \<comment> \<open>for \<open>0 < a\<close>: the \<open>e\<close> with \<open>2 ^ e \<le> a < 2 ^ (e + 1)\<close>\<close>
  "binary_exponent a =
     (let (p, q) = quotient_of a; d = bitlen p - bitlen q
      in if pow2 d \<le> a then d else d - 1)"

definition double_of_rat :: "rat \<Rightarrow> rat" where
  \<comment> \<open>a 53-bit significand: the spacing of floats at \<open>a\<close> is \<open>2 ^ (e - 52)\<close>\<close>
  "double_of_rat x =
     (if x = 0 then 0
      else let a = \<bar>x\<bar>; u = pow2 (binary_exponent a - 52)
           in sgn x * of_int (round_half_even (a / u)) * u)"

definition py_truediv :: "int \<Rightarrow> int \<Rightarrow> error + rat" where
  \<comment> \<open>\<open>a / b\<close> on two Python integers\<close>
  "py_truediv a b =
     (if b = 0 then Inl ZeroDivisionError else Inr (double_of_rat (of_int a / of_int b)))"

definition py_float_mul :: "rat \<Rightarrow> int \<Rightarrow> rat" where
  \<comment> \<open>\<open>x * n\<close> for a float \<open>x\<close> and a small integer \<open>n\<close>, which converts exactly\<close>
  "py_float_mul x n = double_of_rat (x * of_int n)"

definition py_round :: "rat \<Rightarrow> nat \<Rightarrow> rat" where
  \<comment> \<open>\<open>round(x, ndigits)\<close> on a float, \<open>ndigits \<ge> 0\<close>\<close>
  "py_round x ndigits =
     double_of_rat (of_int (round_half_even (x * 10 ^ ndigits)) / 10 ^ ndigits)"

section \<open>The checker object\<close>

record checker =
  profile_name :: pyval
  region :: pyval
  session :: pyval
  iam_client :: pyval
  account_id :: pyval
  compliance_standards :: "(string \<times> pyval) list"

definition init :: "pyval \<Rightarrow> pyval \<Rightarrow> checker" where
  \<comment> \<open>\<open>__init__(self, profile_name=None, region='us-east-1')\<close>\<close>
  "init profile_name_arg region_arg =
     \<lparr> profile_name = profile_name_arg,
       region = region_arg,
       session = PNone,
       iam_client = PNone,
       account_id = PNone,
       compliance_standards =
         [ (''minimum_password_length'', PInt 12),
           (''require_symbols'', PBool True),
           (''require_numbers'', PBool True),
           (''require_uppercase'', PBool True),
           (''require_lowercase'', PBool True),
           (''max_password_age'', PInt 90),
           (''password_reuse_prevention'', PInt 12),
           (''allow_users_to_change_password'', PBool True),
           (''hard_expiry'', PBool False) ] \<rparr>"

fun is_bool_or_int :: "pyval \<Rightarrow> bool" where
  "is_bool_or_int (PBool b) = True"
| "is_bool_or_int (PInt i) = True"
| "is_bool_or_int v = False"

section \<open>The evaluation report\<close>

record evaluation =
  compliant_controls :: "string list"
  non_compliant_controls :: "string list"
  missing_controls :: "string list"
  compliance_score :: pyval
  soc2_cc6_2_status :: string
  nist_ia_5_status :: string
  overall_status :: string
  policy_type :: string

definition initial_evaluation :: evaluation where
  \<comment> \<open>the dictionary literal of lines 3 to 12\<close>
  "initial_evaluation =
     \<lparr> compliant_controls = [],
       non_compliant_controls = [],
       missing_controls = [],
       compliance_score = PInt 0,
       soc2_cc6_2_status = ''UNKNOWN'',
       nist_ia_5_status = ''UNKNOWN'',
       overall_status = ''UNKNOWN'',
       policy_type = ''unknown'' \<rparr>"

section \<open>The evaluator\<close>

text \<open>
  The body of \<open>self._is_control_compliant\<close>, called on line 27, is not among the source
  files. The evaluator takes it as a parameter: a rule that is given the control name,
  the current value and the required value, and either raises or returns a value whose
  truth is tested. The rule only reads its arguments. Between the early return and the
  loop the source carries the comment that the analysis logic continues and was cut for
  brevity; the evaluator is the statements that the source shows.
\<close>

type_synonym control_rule = "string \<Rightarrow> pyval \<Rightarrow> pyval \<Rightarrow> error + bool"

fun policy_get :: "pyval \<Rightarrow> string \<Rightarrow> error + pyval" where
  \<comment> \<open>\<open>policy.get(control)\<close>: a dictionary answers \<open>None\<close> for a key it does not hold;
      numbers, strings, lists and \<open>None\<close> have no attribute \<open>get\<close>\<close>
  "policy_get (PDict m) control = Inr (case m control of None \<Rightarrow> PNone | Some v \<Rightarrow> v)"
| "policy_get policy control = Inl AttributeError"

fun classify_controls ::
  "control_rule \<Rightarrow> pyval \<Rightarrow> (string \<times> pyval) list \<Rightarrow> evaluation \<times> int
     \<Rightarrow> error + evaluation \<times> int" where
  \<comment> \<open>the loop of lines 23 to 31, over the remaining items, on the report and the count\<close>
  "classify_controls icc policy [] st = Inr st"
| "classify_controls icc policy ((control, required_value) # rest) (ev, compliant_count) =
     (case policy_get policy control of
        Inl e \<Rightarrow> Inl e
      | Inr current_value \<Rightarrow>
          (case current_value of
             PNone \<Rightarrow>
               classify_controls icc policy rest
                 (ev\<lparr>missing_controls := missing_controls ev @ [control]\<rparr>, compliant_count)
           | _ \<Rightarrow>
               (case icc control current_value required_value of
                  Inl e \<Rightarrow> Inl e
                | Inr ok \<Rightarrow>
                    if ok
                    then classify_controls icc policy rest
                           (ev\<lparr>compliant_controls := compliant_controls ev @ [control]\<rparr>,
                            compliant_count + 1)
                    else classify_controls icc policy rest
                           (ev\<lparr>non_compliant_controls := non_compliant_controls ev @ [control]\<rparr>,
                            compliant_count))))"

definition compliance_score_of :: "int \<Rightarrow> int \<Rightarrow> error + rat" where
  \<comment> \<open>the right-hand side of line 33\<close>
  "compliance_score_of compliant_count total_controls =
     (case py_truediv compliant_count total_controls of
        Inl e \<Rightarrow> Inl e
      | Inr q \<Rightarrow> Inr (py_round (py_float_mul q 100) 2))"

definition evaluate_policy_compliance ::
  "control_rule \<Rightarrow> checker \<Rightarrow> pyval \<Rightarrow> (error + evaluation) \<times> checker" where
  \<comment> \<open>returns the report or the exception raised, and the checker as the call leaves it;
      the message printed on line 2 is not part of either\<close>
  "evaluate_policy_compliance icc self policy =
     (case policy of
        PNone \<Rightarrow>
          (Inr (initial_evaluation
                  \<lparr> missing_controls := map fst (compliance_standards self),
                    overall_status := ''NON_COMPLIANT'' \<rparr>),
           self)
      | _ \<Rightarrow>
          (let total_controls = int (length (compliance_standards self))
           in case classify_controls icc policy (compliance_standards self)
                     (initial_evaluation, 0) of
                Inl e \<Rightarrow> (Inl e, self)
              | Inr (ev, compliant_count) \<Rightarrow>
                  (case compliance_score_of compliant_count total_controls of
                     Inl e \<Rightarrow> (Inl e, self)
                   | Inr score \<Rightarrow>
                       (Inr (ev\<lparr> compliance_score := PFloat score,
                                  overall_status :=
                                    (if 90 \<le> score then ''COMPLIANT''
                                     else ''NON_COMPLIANT'') \<rparr>),
                        self))))"

section \<open>The compliance rule\<close>

text \<open>
  Modelled from the spec: the method \<open>_is_control_compliant\<close>, whose body is missing
  from the source files. The specification gives the rule per control: for a control
  whose required value is a boolean the value must equal the required one; for a
  numeric control the value is compared with the required one, in a direction (at
  least, or at most) that the specification leaves open, so the direction of each
  control is a parameter. Equality is Python's \<open>==\<close>, under which \<open>True\<close> equals \<open>1\<close>
  and \<open>1.0\<close>. The specification throws no exception for malformed input, so a value
  that is not a number does not satisfy a numeric control.
\<close>

datatype direction = AtLeast | AtMost

fun num_of :: "pyval \<Rightarrow> rat option" where
  "num_of (PBool b) = Some (if b then 1 else 0)"
| "num_of (PInt i) = Some (of_int i)"
| "num_of (PFloat x) = Some x"
| "num_of v = None"

definition is_control_compliant :: "(string \<Rightarrow> direction) \<Rightarrow> control_rule" where
  "is_control_compliant dir control current_value required_value =
     (case required_value of
        PBool b \<Rightarrow> Inr (num_of current_value = Some (if b then 1 else 0))
      | _ \<Rightarrow>
          (case (num_of current_value, num_of required_value) of
             (Some c, Some r) \<Rightarrow>
               Inr (case dir control of AtLeast \<Rightarrow> r \<le> c | AtMost \<Rightarrow> c \<le> r)
           | _ \<Rightarrow> Inr False))"

definition minimums :: "string \<Rightarrow> direction" where
  \<comment> \<open>one reading of the open question: every numeric control is a lower bound\<close>
  "minimums control = AtLeast"

section \<open>What the loop does to one control\<close>

text \<open>
  The three branches of the loop body, read off lines 24 to 31 for a policy that is a
  dictionary: a control is missing when the policy has no value for it or the value is
  \<open>None\<close>; otherwise the rule decides, unless it raises.
\<close>

definition is_missing :: "(string \<Rightarrow> pyval option) \<Rightarrow> string \<Rightarrow> bool" where
  "is_missing m control = (case m control of None \<Rightarrow> True | Some PNone \<Rightarrow> True | Some v \<Rightarrow> False)"

definition rule_says ::
  "control_rule \<Rightarrow> (string \<Rightarrow> pyval option) \<Rightarrow> bool \<Rightarrow> string \<times> pyval \<Rightarrow> bool" where
  "rule_says icc m verdict item =
     (case m (fst item) of
        None \<Rightarrow> False
      | Some PNone \<Rightarrow> False
      | Some v \<Rightarrow> icc (fst item) v (snd item) = Inr verdict)"

definition rule_returns ::
  "control_rule \<Rightarrow> (string \<Rightarrow> pyval option) \<Rightarrow> (string \<times> pyval) list \<Rightarrow> bool" where
  \<comment> \<open>the rule raises on no control that has a value in the policy\<close>
  "rule_returns icc m items =
     list_all (\<lambda>item. is_missing m (fst item) \<or> rule_says icc m True item
                        \<or> rule_says icc m False item) items"

section \<open>Example inputs\<close>

definition default_checker :: checker where
  \<comment> \<open>the checker the entry point builds when no profile is given\<close>
  "default_checker = init PNone (PStr ''us-east-1'')"

definition baseline_policy :: "string \<Rightarrow> pyval option" where
  \<comment> \<open>a policy that holds the required value of every control\<close>
  "baseline_policy =
     map_of
       [ (''minimum_password_length'', PInt 12),
         (''require_symbols'', PBool True),
         (''require_numbers'', PBool True),
         (''require_uppercase'', PBool True),
         (''require_lowercase'', PBool True),
         (''max_password_age'', PInt 90),
         (''password_reuse_prevention'', PInt 12),
         (''allow_users_to_change_password'', PBool True),
         (''hard_expiry'', PBool False) ]"

definition eight_of_nine_policy :: "string \<Rightarrow> pyval option" where
  \<comment> \<open>the same policy with hard expiry switched on\<close>
  "eight_of_nine_policy = baseline_policy(''hard_expiry'' \<mapsto> PBool True)"

definition partial_policy :: "string \<Rightarrow> pyval option" where
  \<comment> \<open>one key absent, one value \<open>None\<close>, one value wrong\<close>
  "partial_policy =
     baseline_policy
       (''require_symbols'' := None,
        ''max_password_age'' \<mapsto> PNone,
        ''hard_expiry'' \<mapsto> PBool True)"

definition malformed_values_policy :: "string \<Rightarrow> pyval option" where
  \<comment> \<open>a dictionary whose values have the wrong types\<close>
  "malformed_values_policy =
     baseline_policy
       (''minimum_password_length'' \<mapsto> PStr ''twelve'',
        ''require_symbols'' \<mapsto> PList [],
        ''hard_expiry'' \<mapsto> PNone)"

definition ten_control_checker :: checker where
  \<comment> \<open>a checker whose baseline has a tenth control, for which nine compliant controls
      score exactly 90\<close>
  "ten_control_checker =
     default_checker
       \<lparr> compliance_standards :=
           compliance_standards default_checker @ [(''require_mfa'', PBool True)] \<rparr>"

section \<open>The loop, step by step\<close>

lemma case_not_None:
  "v \<noteq> PNone \<Longrightarrow> (case v of PNone \<Rightarrow> a | PBool x \<Rightarrow> b | PInt x \<Rightarrow> b | PFloat x \<Rightarrow> b
       | PStr x \<Rightarrow> b | PList x \<Rightarrow> b | PDict x \<Rightarrow> b) = b"
  by (cases v) simp_all

lemma is_missing_iff: "is_missing m c \<longleftrightarrow> m c = None \<or> m c = Some PNone"
  by (cases "m c"; cases "the (m c)") (simp_all add: is_missing_def)

lemma rule_says_iff:
  "rule_says icc m b item \<longleftrightarrow>
     (\<exists>v. m (fst item) = Some v \<and> v \<noteq> PNone \<and> icc (fst item) v (snd item) = Inr b)"
  by (cases "m (fst item)"; cases "the (m (fst item))") (simp_all add: rule_says_def)

lemma step_missing:
  "is_missing m c \<Longrightarrow>
   classify_controls icc (PDict m) ((c, r) # rest) (ev, n) =
   classify_controls icc (PDict m) rest
     (ev\<lparr>missing_controls := missing_controls ev @ [c]\<rparr>, n)"
  unfolding is_missing_iff by (elim disjE) simp_all

lemma step_compliant:
  "rule_says icc m True (c, r) \<Longrightarrow>
   classify_controls icc (PDict m) ((c, r) # rest) (ev, n) =
   classify_controls icc (PDict m) rest
     (ev\<lparr>compliant_controls := compliant_controls ev @ [c]\<rparr>, n + 1)"
  unfolding rule_says_iff by (clarsimp simp: case_not_None)

lemma step_non_compliant:
  "rule_says icc m False (c, r) \<Longrightarrow>
   classify_controls icc (PDict m) ((c, r) # rest) (ev, n) =
   classify_controls icc (PDict m) rest
     (ev\<lparr>non_compliant_controls := non_compliant_controls ev @ [c]\<rparr>, n)"
  unfolding rule_says_iff by (clarsimp simp: case_not_None)

lemma classify_controls_dict:
  "rule_returns icc m items \<Longrightarrow>
   classify_controls icc (PDict m) items (ev, n) =
     Inr (ev\<lparr> compliant_controls :=
                 compliant_controls ev @ map fst (filter (rule_says icc m True) items),
               non_compliant_controls :=
                 non_compliant_controls ev @ map fst (filter (rule_says icc m False) items),
               missing_controls :=
                 missing_controls ev @ filter (is_missing m) (map fst items) \<rparr>,
          n + int (length (filter (rule_says icc m True) items)))"
proof (induction items arbitrary: ev n)
  case Nil
  then show ?case by simp
next
  case (Cons item rest)
  obtain c r where item: "item = (c, r)"
    by (cases item)
  from Cons.prems have rest: "rule_returns icc m rest"
    by (simp add: rule_returns_def)
  note IH = Cons.IH [OF rest]
  from Cons.prems consider
    (missing) "is_missing m c" | (yes) "rule_says icc m True (c, r)"
    | (no) "rule_says icc m False (c, r)"
    by (auto simp: rule_returns_def item)
  then show ?case
  proof cases
    case missing
    from missing have excl: "\<not> rule_says icc m True (c, r)" "\<not> rule_says icc m False (c, r)"
      by (auto simp: is_missing_iff rule_says_iff)
    from missing excl show ?thesis
      by (simp add: item step_missing IH del: classify_controls.simps)
  next
    case yes
    from yes have excl: "\<not> is_missing m c" "\<not> rule_says icc m False (c, r)"
      by (auto simp: is_missing_iff rule_says_iff)
    from yes excl show ?thesis
      by (simp add: item step_compliant IH del: classify_controls.simps)
  next
    case no
    from no have excl: "\<not> is_missing m c" "\<not> rule_says icc m True (c, r)"
      by (auto simp: is_missing_iff rule_says_iff)
    from no excl show ?thesis
      by (simp add: item step_non_compliant IH del: classify_controls.simps)
  qed
qed

lemma classify_controls_not_dict:
  "(\<And>m. policy \<noteq> PDict m) \<Longrightarrow> items \<noteq> [] \<Longrightarrow>
   classify_controls icc policy items st = Inl AttributeError"
  by (cases items; cases st; cases policy) auto


lemma baseline_length: "length (compliance_standards (init pn rg)) = 9"
  by (simp add: init_def)

lemma compliance_score_of_nonzero:
  "n \<noteq> 0 \<Longrightarrow>
   compliance_score_of k n =
     Inr (py_round (py_float_mul (double_of_rat (of_int k / of_int n)) 100) 2)"
  by (simp add: compliance_score_of_def py_truediv_def)

lemma evaluate_dict:
  assumes "rule_returns icc m (compliance_standards self)"
    and "compliance_score_of
           (int (length (filter (rule_says icc m True) (compliance_standards self))))
           (int (length (compliance_standards self))) = Inr s"
  shows "evaluate_policy_compliance icc self (PDict m) =
     (Inr (initial_evaluation
            \<lparr> compliant_controls :=
                map fst (filter (rule_says icc m True) (compliance_standards self)),
              non_compliant_controls :=
                map fst (filter (rule_says icc m False) (compliance_standards self)),
              missing_controls :=
                filter (is_missing m) (map fst (compliance_standards self)),
              compliance_score := PFloat s,
              overall_status := (if 90 \<le> s then ''COMPLIANT'' else ''NON_COMPLIANT'') \<rparr>),
      self)"
  using assms(2)
  by (simp add: evaluate_policy_compliance_def classify_controls_dict [OF assms(1)]
      initial_evaluation_def)

lemma score_table:
  "compliance_score_of 0 9 = Inr 0"
  "compliance_score_of 1 9 = Inr (781796747813847 / 70368744177664)"
  "compliance_score_of 2 9 = Inr (781796747813847 / 35184372088832)"
  "compliance_score_of 3 9 = Inr (2345390243441541 / 70368744177664)"
  "compliance_score_of 4 9 = Inr (781796747813847 / 17592186044416)"
  "compliance_score_of 5 9 = Inr (977421856627753 / 17592186044416)"
  "compliance_score_of 6 9 = Inr (4691484174324859 / 70368744177664)"
  "compliance_score_of 7 9 = Inr (2736640461069353 / 35184372088832)"
  "compliance_score_of 8 9 = Inr (6255077669952553 / 70368744177664)"
  "compliance_score_of 9 9 = Inr 100"
  by code_simp+

lemma literal_88_89: "double_of_rat (8889 / 100) = 6255077669952553 / 70368744177664"
  by code_simp

lemma score_of_nine_split:
  assumes "k \<le> (9::nat)"
  shows "case compliance_score_of (int k) 9 of
           Inl e \<Rightarrow> False
         | Inr s \<Rightarrow> 0 \<le> s \<and> s \<le> 100 \<and> (90 \<le> s \<longleftrightarrow> k = 9)"
proof -
  from assms have "k = 0 \<or> k = 1 \<or> k = 2 \<or> k = 3 \<or> k = 4 \<or> k = 5 \<or> k = 6 \<or> k = 7
      \<or> k = 8 \<or> k = 9"
    by arith
  then show ?thesis
    by (elim disjE) (simp_all add: score_table)
qed

lemma score_of_nine_cases:
  assumes "k \<le> (9::nat)"
  obtains s where "compliance_score_of (int k) 9 = Inr s" "0 \<le> s" "s \<le> 100"
    "90 \<le> s \<longleftrightarrow> k = 9"
  using score_of_nine_split [OF assms]
  by (cases "compliance_score_of (int k) 9") simp_all

section \<open>The rule of the specification always answers\<close>

lemma is_control_compliant_total:
  "\<exists>b. is_control_compliant dir c v r = Inr b"
proof (cases r)
  case (PBool b)
  then show ?thesis by (simp add: is_control_compliant_def)
qed (cases "num_of v"; simp add: is_control_compliant_def; blast)+

lemma is_control_compliant_returns:
  "rule_returns (is_control_compliant dir) m items"
proof -
  have "is_missing m (fst item) \<or> rule_says (is_control_compliant dir) m True item
          \<or> rule_says (is_control_compliant dir) m False item" for item
  proof (cases "m (fst item)")
    case None
    then show ?thesis by (simp add: is_missing_iff)
  next
    case (Some v)
    obtain b where "is_control_compliant dir (fst item) v (snd item) = Inr b"
      using is_control_compliant_total by blast
    with Some show ?thesis
      unfolding is_missing_iff rule_says_iff by (cases b) auto
  qed
  then show ?thesis
    by (simp add: rule_returns_def list_all_iff)
qed

lemma compliant_length_le:
  "length (filter P (compliance_standards (init pn rg))) \<le> 9"
  using length_filter_le [of P "compliance_standards (init pn rg)"]
  by (simp only: baseline_length)

section \<open>The three lists partition the controls\<close>

lemma verdict_lists_mset:
  "rule_returns icc m items \<Longrightarrow>
   mset (map fst (filter (rule_says icc m True) items)
         @ map fst (filter (rule_says icc m False) items)
         @ filter (is_missing m) (map fst items)) = mset (map fst items)"
proof (induction items)
  case Nil
  then show ?case by simp
next
  case (Cons item rest)
  from Cons.prems have rest: "rule_returns icc m rest"
    by (simp add: rule_returns_def)
  note IH = Cons.IH [OF rest]
  from Cons.prems consider
    (missing) "is_missing m (fst item)" | (yes) "rule_says icc m True item"
    | (no) "rule_says icc m False item"
    by (auto simp: rule_returns_def)
  then show ?case
  proof cases
    case missing
    then have "\<not> rule_says icc m True item" "\<not> rule_says icc m False item"
      by (auto simp: is_missing_iff rule_says_iff)
    with missing IH show ?thesis by simp
  next
    case yes
    then have "\<not> is_missing m (fst item)" "\<not> rule_says icc m False item"
      by (auto simp: is_missing_iff rule_says_iff)
    with yes IH show ?thesis by simp
  next
    case no
    then have "\<not> is_missing m (fst item)" "\<not> rule_says icc m True item"
      by (auto simp: is_missing_iff rule_says_iff)
    with no IH show ?thesis by simp
  qed
qed

lemma baseline_names:
  "map fst (compliance_standards (init pn rg)) =
     [''minimum_password_length'', ''require_symbols'', ''require_numbers'',
      ''require_uppercase'', ''require_lowercase'', ''max_password_age'',
      ''password_reuse_prevention'', ''allow_users_to_change_password'', ''hard_expiry'']"
  by (simp add: init_def)

lemma baseline_distinct: "distinct (map fst (compliance_standards (init pn rg)))"
  by (simp add: baseline_names)

section \<open>Evaluating the example inputs\<close>

lemma score_nine_of_ten: "compliance_score_of 9 10 = Inr 90"
  by code_simp

lemma says_true_baseline:
  "filter (rule_says (is_control_compliant minimums) baseline_policy True)
     (compliance_standards default_checker) = compliance_standards default_checker"
  by (simp add: default_checker_def init_def baseline_policy_def rule_says_def
      is_control_compliant_def minimums_def)

lemma says_true_eight:
  "length (filter (rule_says (is_control_compliant minimums) eight_of_nine_policy True)
     (compliance_standards default_checker)) = 8"
  by (simp add: default_checker_def init_def baseline_policy_def eight_of_nine_policy_def
      rule_says_def is_control_compliant_def minimums_def)

lemma says_true_ten:
  "length (filter (rule_says (is_control_compliant minimums) baseline_policy True)
     (compliance_standards ten_control_checker)) = 9"
  by (simp add: ten_control_checker_def default_checker_def init_def baseline_policy_def
      rule_says_def is_control_compliant_def minimums_def)

lemma evaluate_frame: "snd (evaluate_policy_compliance icc self policy) = self"
  by (cases policy)
    (simp_all add: evaluate_policy_compliance_def split: sum.splits prod.splits)

lemma evaluate_not_dict:
  "policy \<noteq> PNone \<Longrightarrow> (\<And>m. policy \<noteq> PDict m) \<Longrightarrow> compliance_standards self \<noteq> [] \<Longrightarrow>
   fst (evaluate_policy_compliance icc self policy) = Inl AttributeError"
  by (cases policy)
    (simp_all add: evaluate_policy_compliance_def classify_controls_not_dict)

lemma evaluate_init_dict:
  assumes "rule_returns icc m (compliance_standards (init pn rg))"
  obtains s where
    "compliance_score_of
       (int (length (filter (rule_says icc m True) (compliance_standards (init pn rg))))) 9
       = Inr s"
    "0 \<le> s" "s \<le> 100"
    "90 \<le> s \<longleftrightarrow>
       length (filter (rule_says icc m True) (compliance_standards (init pn rg))) = 9"
    "evaluate_policy_compliance icc (init pn rg) (PDict m) =
     (Inr (initial_evaluation
            \<lparr> compliant_controls :=
                map fst (filter (rule_says icc m True) (compliance_standards (init pn rg))),
              non_compliant_controls :=
                map fst (filter (rule_says icc m False) (compliance_standards (init pn rg))),
              missing_controls :=
                filter (is_missing m) (map fst (compliance_standards (init pn rg))),
              compliance_score := PFloat s,
              overall_status := (if 90 \<le> s then ''COMPLIANT'' else ''NON_COMPLIANT'') \<rparr>),
      init pn rg)"
proof -
  let ?items = "compliance_standards (init pn rg)"
  let ?k = "length (filter (rule_says icc m True) ?items)"
  obtain s where s: "compliance_score_of (int ?k) 9 = Inr s" "0 \<le> s" "s \<le> 100"
    "90 \<le> s \<longleftrightarrow> ?k = 9"
    using score_of_nine_cases [OF compliant_length_le] by blast
  from s(1) have "compliance_score_of (int ?k) (int (length ?items)) = Inr s"
    by (simp only: baseline_length) simp
  note ev = evaluate_dict [OF assms this]
  show ?thesis
    by (rule that [OF s ev])
qed

section \<open>A policy that holds every required value\<close>

lemma is_control_compliant_same:
  "is_bool_or_int r \<Longrightarrow> is_control_compliant dir c r r = Inr True"
  by (cases r; cases "dir c") (simp_all add: is_control_compliant_def)

lemma baseline_values_bool_or_int:
  "item \<in> set (compliance_standards (init pn rg)) \<Longrightarrow> is_bool_or_int (snd item)"
  by (auto simp: init_def)

lemma matching_policy_says_true:
  assumes "list_all (\<lambda>item. m (fst item) = Some (snd item)) (compliance_standards (init pn rg))"
  shows "filter (rule_says (is_control_compliant dir) m True) (compliance_standards (init pn rg))
           = compliance_standards (init pn rg)"
    and "filter (rule_says (is_control_compliant dir) m False) (compliance_standards (init pn rg))
           = []"
    and "filter (is_missing m) (map fst (compliance_standards (init pn rg))) = []"
proof -
  let ?items = "compliance_standards (init pn rg)"
  have yes: "rule_says (is_control_compliant dir) m True item" if "item \<in> set ?items" for item
  proof -
    from that assms have v: "m (fst item) = Some (snd item)"
      by (simp add: list_all_iff)
    from that have b: "is_bool_or_int (snd item)"
      by (rule baseline_values_bool_or_int)
    then have "snd item \<noteq> PNone" by auto
    with v is_control_compliant_same [OF b] show ?thesis
      unfolding rule_says_iff by simp
  qed
  then show "filter (rule_says (is_control_compliant dir) m True) ?items = ?items"
    by (simp add: filter_id_conv)
  from yes have "\<not> rule_says (is_control_compliant dir) m False item"
    if "item \<in> set ?items" for item
    using that unfolding rule_says_iff by fastforce
  then show "filter (rule_says (is_control_compliant dir) m False) ?items = []"
    by (simp add: filter_empty_conv)
  from yes have "\<not> is_missing m (fst item)" if "item \<in> set ?items" for item
    using that unfolding rule_says_iff is_missing_iff by fastforce
  then show "filter (is_missing m) (map fst ?items) = []"
    by (auto simp: filter_empty_conv)
qed

section \<open>Properties of the evaluator\<close>

text \<open>
  Claim C1. For a policy that is a dictionary, evaluated against the baseline of nine
  controls, the report's score is \<open>round(compliant_count / 9 * 100, 2)\<close> computed in
  floating point, where the count is the number of controls in \<open>compliant_controls\<close>.
  The score lies between 0 and 100 and is the float nearest to a number of hundredths.
  The rule is any rule that raises on no value of the policy.
\<close>

theorem score_is_rounded_percentage:
  assumes "rule_returns icc m (compliance_standards (init pn rg))"
  shows "\<exists>ev q s. fst (evaluate_policy_compliance icc (init pn rg) (PDict m)) = Inr ev
           \<and> int (length (compliance_standards (init pn rg))) = 9
           \<and> py_truediv (int (length (compliant_controls ev))) 9 = Inr q
           \<and> s = py_round (py_float_mul q 100) 2
           \<and> compliance_score ev = PFloat s
           \<and> 0 \<le> s \<and> s \<le> 100
           \<and> (\<exists>h::int. s = double_of_rat (of_int h / 100))"
proof -
  let ?items = "compliance_standards (init pn rg)"
  let ?k = "length (filter (rule_says icc m True) ?items)"
  obtain s where s: "compliance_score_of (int ?k) 9 = Inr s" "0 \<le> s" "s \<le> 100"
    using score_of_nine_cases [OF compliant_length_le] by blast
  from s(1) have s': "compliance_score_of (int ?k) (int (length ?items)) = Inr s"
    by (simp only: baseline_length) simp
  note ev = evaluate_dict [OF assms s']
  let ?q = "double_of_rat (of_int (int ?k) / of_int 9)"
  have q: "py_truediv (int ?k) 9 = Inr ?q"
    by (simp add: py_truediv_def)
  from s(1) have sq: "s = py_round (py_float_mul ?q 100) 2"
    by (simp add: compliance_score_of_nonzero)
  have h: "\<exists>h::int. s = double_of_rat (of_int h / 100)"
    unfolding sq py_round_def by (rule exI [of _ "round_half_even (py_float_mul ?q 100 * 10 ^ 2)"]) simp
  show ?thesis
    using s(2,3) q sq h
    by (simp add: ev baseline_length)
qed

theorem score_is_rounded_percentage_witness:
  "rule_returns (is_control_compliant minimums) partial_policy
     (compliance_standards (init PNone (PStr ''us-east-1'')))
   \<and> (\<exists>ev q s. fst (evaluate_policy_compliance (is_control_compliant minimums)
                      (init PNone (PStr ''us-east-1'')) (PDict partial_policy)) = Inr ev
           \<and> int (length (compliance_standards (init PNone (PStr ''us-east-1'')))) = 9
           \<and> py_truediv (int (length (compliant_controls ev))) 9 = Inr q
           \<and> s = py_round (py_float_mul q 100) 2
           \<and> compliance_score ev = PFloat s
           \<and> 0 \<le> s \<and> s \<le> 100
           \<and> (\<exists>h::int. s = double_of_rat (of_int h / 100)))"
proof -
  have h: "rule_returns (is_control_compliant minimums) partial_policy
      (compliance_standards (init PNone (PStr ''us-east-1'')))"
    by (rule is_control_compliant_returns)
  from h score_is_rounded_percentage [OF h] show ?thesis
    by (rule conjI)
qed

text \<open>
  Claim C2. For a policy that is a dictionary, the overall status is \<open>COMPLIANT\<close>
  exactly when the score is at least 90, and \<open>NON_COMPLIANT\<close> exactly when it is below;
  a score of exactly 90 is compliant. This holds for any checker with at least one
  control; with ten controls, nine compliant ones score exactly 90.
\<close>

theorem overall_status_threshold:
  assumes "rule_returns icc m (compliance_standards self)"
    and "compliance_standards self \<noteq> []"
  shows "\<exists>ev s. fst (evaluate_policy_compliance icc self (PDict m)) = Inr ev
           \<and> compliance_score ev = PFloat s
           \<and> (overall_status ev = ''COMPLIANT'' \<longleftrightarrow> 90 \<le> s)
           \<and> (overall_status ev = ''NON_COMPLIANT'' \<longleftrightarrow> s < 90)
           \<and> (s = 90 \<longrightarrow> overall_status ev = ''COMPLIANT'')"
proof -
  from assms(2) have "int (length (compliance_standards self)) \<noteq> 0"
    by simp
  from evaluate_dict [OF assms(1) compliance_score_of_nonzero [OF this]]
  show ?thesis
    by (simp add: initial_evaluation_def not_le)
qed

theorem overall_status_threshold_witness:
  "rule_returns (is_control_compliant minimums) baseline_policy
     (compliance_standards ten_control_checker)
   \<and> compliance_standards ten_control_checker \<noteq> []
   \<and> (\<exists>ev. fst (evaluate_policy_compliance (is_control_compliant minimums)
                  ten_control_checker (PDict baseline_policy)) = Inr ev
         \<and> compliance_score ev = PFloat 90
         \<and> overall_status ev = ''COMPLIANT'')"
proof -
  let ?R = "is_control_compliant minimums"
  have h1: "rule_returns ?R baseline_policy (compliance_standards ten_control_checker)"
    by (rule is_control_compliant_returns)
  have h2: "compliance_standards ten_control_checker \<noteq> []"
    by (simp add: ten_control_checker_def)
  have len: "int (length (compliance_standards ten_control_checker)) = 10"
    by (simp add: ten_control_checker_def default_checker_def init_def)
  have sc: "compliance_score_of
      (int (length (filter (rule_says ?R baseline_policy True)
                      (compliance_standards ten_control_checker))))
      (int (length (compliance_standards ten_control_checker))) = Inr 90"
    by (simp only: says_true_ten len) (simp add: score_nine_of_ten)
  have score: "compliance_score (projr (fst (evaluate_policy_compliance ?R
      ten_control_checker (PDict baseline_policy)))) = PFloat 90"
    by (simp add: evaluate_dict [OF h1 sc])
  from overall_status_threshold [OF h1 h2] obtain ev s where
    ev: "fst (evaluate_policy_compliance ?R ten_control_checker (PDict baseline_policy)) = Inr ev"
      "compliance_score ev = PFloat s" "s = 90 \<longrightarrow> overall_status ev = ''COMPLIANT''"
    by blast
  from score ev(1,2) have "s = 90" by simp
  with ev h1 h2 show ?thesis by simp
qed

text \<open>
  Claim C3. For the policy \<open>None\<close> the evaluator returns a report, without raising,
  whose \<open>missing_controls\<close> are the nine baseline control names, whose score is the
  integer 0 and whose overall status is \<open>NON_COMPLIANT\<close>.
\<close>

theorem absent_policy_all_missing:
  "\<exists>ev. fst (evaluate_policy_compliance icc (init pn rg) PNone) = Inr ev
     \<and> missing_controls ev =
         [''minimum_password_length'', ''require_symbols'', ''require_numbers'',
          ''require_uppercase'', ''require_lowercase'', ''max_password_age'',
          ''password_reuse_prevention'', ''allow_users_to_change_password'', ''hard_expiry'']
     \<and> missing_controls ev = map fst (compliance_standards (init pn rg))
     \<and> length (missing_controls ev) = 9
     \<and> compliance_score ev = PInt 0
     \<and> overall_status ev = ''NON_COMPLIANT''"
  by (simp add: evaluate_policy_compliance_def initial_evaluation_def baseline_names
      baseline_length)

text \<open>
  Claim C4. For a policy that is a dictionary, every baseline control occurs in exactly
  one of the three lists of the report, once, and the lists hold nothing else. A control
  that the policy lacks, or whose value is \<open>None\<close>, is in \<open>missing_controls\<close> and in
  neither of the other lists.
\<close>

theorem each_control_in_one_list:
  assumes "rule_returns icc m (compliance_standards (init pn rg))"
  shows "\<exists>ev. fst (evaluate_policy_compliance icc (init pn rg) (PDict m)) = Inr ev
           \<and> distinct (compliant_controls ev @ non_compliant_controls ev @ missing_controls ev)
           \<and> set (compliant_controls ev @ non_compliant_controls ev @ missing_controls ev)
               = set (map fst (compliance_standards (init pn rg)))
           \<and> (\<forall>c \<in> set (map fst (compliance_standards (init pn rg))).
                 m c = None \<or> m c = Some PNone \<longrightarrow>
                   c \<in> set (missing_controls ev)
                   \<and> c \<notin> set (compliant_controls ev)
                   \<and> c \<notin> set (non_compliant_controls ev))"
proof -
  let ?items = "compliance_standards (init pn rg)"
  let ?A = "map fst (filter (rule_says icc m True) ?items)"
  let ?B = "map fst (filter (rule_says icc m False) ?items)"
  let ?C = "filter (is_missing m) (map fst ?items)"
  obtain s where "compliance_score_of
      (int (length (filter (rule_says icc m True) ?items))) 9 = Inr s"
    using score_of_nine_cases [OF compliant_length_le] by blast
  then have s: "compliance_score_of (int (length (filter (rule_says icc m True) ?items)))
      (int (length ?items)) = Inr s"
    by (simp only: baseline_length) simp
  note ev = evaluate_dict [OF assms s]
  note ms = verdict_lists_mset [OF assms]
  have d: "distinct (?A @ ?B @ ?C)"
    using mset_eq_imp_distinct_iff [OF ms] baseline_distinct by blast
  have st: "set (?A @ ?B @ ?C) = set (map fst ?items)"
    using mset_eq_setD [OF ms] .
  have mi: "c \<in> set ?C \<and> c \<notin> set ?A \<and> c \<notin> set ?B"
    if "c \<in> set (map fst ?items)" "m c = None \<or> m c = Some PNone" for c
  proof -
    from that have "c \<in> set ?C"
      by (simp add: is_missing_iff)
    with d show ?thesis by auto
  qed
  show ?thesis
    unfolding ev using d st mi by (simp add: initial_evaluation_def)
qed

theorem each_control_in_one_list_witness:
  "rule_returns (is_control_compliant minimums) partial_policy
     (compliance_standards default_checker)
   \<and> ''require_symbols'' \<in> set (map fst (compliance_standards default_checker))
   \<and> partial_policy ''require_symbols'' = None
   \<and> ''max_password_age'' \<in> set (map fst (compliance_standards default_checker))
   \<and> partial_policy ''max_password_age'' = Some PNone
   \<and> (\<exists>ev. fst (evaluate_policy_compliance (is_control_compliant minimums)
                  default_checker (PDict partial_policy)) = Inr ev
         \<and> distinct (compliant_controls ev @ non_compliant_controls ev @ missing_controls ev)
         \<and> set (compliant_controls ev @ non_compliant_controls ev @ missing_controls ev)
             = set (map fst (compliance_standards default_checker))
         \<and> ''require_symbols'' \<in> set (missing_controls ev)
         \<and> ''require_symbols'' \<notin> set (compliant_controls ev)
         \<and> ''require_symbols'' \<notin> set (non_compliant_controls ev)
         \<and> ''max_password_age'' \<in> set (missing_controls ev)
         \<and> ''max_password_age'' \<notin> set (compliant_controls ev)
         \<and> ''max_password_age'' \<notin> set (non_compliant_controls ev))"
proof -
  let ?R = "is_control_compliant minimums"
  have h: "rule_returns ?R partial_policy (compliance_standards (init PNone (PStr ''us-east-1'')))"
    by (rule is_control_compliant_returns)
  have a: "''require_symbols'' \<in> set (map fst (compliance_standards (init PNone (PStr ''us-east-1''))))"
    "''max_password_age'' \<in> set (map fst (compliance_standards (init PNone (PStr ''us-east-1''))))"
    by (simp_all add: baseline_names)
  have b: "partial_policy ''require_symbols'' = None"
    "partial_policy ''max_password_age'' = Some PNone"
    by (simp_all add: partial_policy_def baseline_policy_def)
  from each_control_in_one_list [OF h] obtain ev where
    ev: "fst (evaluate_policy_compliance ?R (init PNone (PStr ''us-east-1''))
            (PDict partial_policy)) = Inr ev"
      "distinct (compliant_controls ev @ non_compliant_controls ev @ missing_controls ev)"
      "set (compliant_controls ev @ non_compliant_controls ev @ missing_controls ev)
         = set (map fst (compliance_standards (init PNone (PStr ''us-east-1''))))"
      "\<forall>c \<in> set (map fst (compliance_standards (init PNone (PStr ''us-east-1'')))).
         partial_policy c = None \<or> partial_policy c = Some PNone \<longrightarrow>
           c \<in> set (missing_controls ev)
           \<and> c \<notin> set (compliant_controls ev)
           \<and> c \<notin> set (non_compliant_controls ev)"
    by blast
  from ev(4) a(1) b(1) have m1: "''require_symbols'' \<in> set (missing_controls ev)
      \<and> ''require_symbols'' \<notin> set (compliant_controls ev)
      \<and> ''require_symbols'' \<notin> set (non_compliant_controls ev)"
    by blast
  from ev(4) a(2) b(2) have m2: "''max_password_age'' \<in> set (missing_controls ev)
      \<and> ''max_password_age'' \<notin> set (compliant_controls ev)
      \<and> ''max_password_age'' \<notin> set (non_compliant_controls ev)"
    by blast
  show ?thesis
    unfolding default_checker_def
    using h a b ev(1,2,3) m1 m2 by blast
qed

text \<open>
  Claim C5. Under the rule of the specification, whichever direction the numeric
  controls are compared in, a policy whose value for every baseline control is the
  required value gives a report with all nine controls in \<open>compliant_controls\<close>, the
  score 100.0 and the overall status \<open>COMPLIANT\<close>.
\<close>

theorem baseline_policy_fully_compliant:
  assumes "list_all (\<lambda>item. m (fst item) = Some (snd item)) (compliance_standards (init pn rg))"
  shows "\<exists>ev. fst (evaluate_policy_compliance (is_control_compliant dir) (init pn rg) (PDict m))
                 = Inr ev
           \<and> compliant_controls ev =
               [''minimum_password_length'', ''require_symbols'', ''require_numbers'',
                ''require_uppercase'', ''require_lowercase'', ''max_password_age'',
                ''password_reuse_prevention'', ''allow_users_to_change_password'',
                ''hard_expiry'']
           \<and> length (compliant_controls ev) = 9
           \<and> non_compliant_controls ev = []
           \<and> missing_controls ev = []
           \<and> compliance_score ev = PFloat 100
           \<and> overall_status ev = ''COMPLIANT''"
proof -
  note f = matching_policy_says_true [OF assms]
  have sc: "compliance_score_of
      (int (length (filter (rule_says (is_control_compliant dir) m True)
                      (compliance_standards (init pn rg)))))
      (int (length (compliance_standards (init pn rg)))) = Inr 100"
    by (simp only: f baseline_length) (simp add: score_table)
  show ?thesis
    unfolding evaluate_dict [OF is_control_compliant_returns sc] f
    by (simp add: baseline_names initial_evaluation_def)
qed

theorem baseline_policy_fully_compliant_witness:
  "list_all (\<lambda>item. baseline_policy (fst item) = Some (snd item))
     (compliance_standards (init PNone (PStr ''us-east-1'')))
   \<and> (\<exists>ev. fst (evaluate_policy_compliance (is_control_compliant minimums)
                  (init PNone (PStr ''us-east-1'')) (PDict baseline_policy)) = Inr ev
           \<and> compliant_controls ev =
               [''minimum_password_length'', ''require_symbols'', ''require_numbers'',
                ''require_uppercase'', ''require_lowercase'', ''max_password_age'',
                ''password_reuse_prevention'', ''allow_users_to_change_password'',
                ''hard_expiry'']
           \<and> length (compliant_controls ev) = 9
           \<and> non_compliant_controls ev = []
           \<and> missing_controls ev = []
           \<and> compliance_score ev = PFloat 100
           \<and> overall_status ev = ''COMPLIANT'')"
proof -
  have h: "list_all (\<lambda>item. baseline_policy (fst item) = Some (snd item))
      (compliance_standards (init PNone (PStr ''us-east-1'')))"
    by (simp add: init_def baseline_policy_def)
  from h baseline_policy_fully_compliant [OF h] show ?thesis
    by (rule conjI)
qed

text \<open>
  Claim C6. When the rule accepts exactly eight of the nine baseline controls of a
  policy, the report lists eight compliant controls and one other, the score is the
  float 88.89 and the overall status is \<open>NON_COMPLIANT\<close>.
\<close>

theorem eight_of_nine_scores_88_89:
  assumes "rule_returns icc m (compliance_standards (init pn rg))"
    and "length (filter (rule_says icc m True) (compliance_standards (init pn rg))) = 8"
  shows "\<exists>ev. fst (evaluate_policy_compliance icc (init pn rg) (PDict m)) = Inr ev
           \<and> length (compliant_controls ev) = 8
           \<and> length (non_compliant_controls ev) + length (missing_controls ev) = 1
           \<and> compliance_score ev = PFloat (double_of_rat (8889 / 100))
           \<and> compliance_score ev = PFloat (6255077669952553 / 70368744177664)
           \<and> overall_status ev = ''NON_COMPLIANT''"
proof -
  let ?items = "compliance_standards (init pn rg)"
  have sc: "compliance_score_of (int (length (filter (rule_says icc m True) ?items)))
      (int (length ?items)) = Inr (6255077669952553 / 70368744177664)"
    by (simp only: assms(2) baseline_length) (simp add: score_table)
  have "length (map fst (filter (rule_says icc m True) ?items)
          @ map fst (filter (rule_says icc m False) ?items)
          @ filter (is_missing m) (map fst ?items)) = length (map fst ?items)"
    by (rule mset_eq_length [OF verdict_lists_mset [OF assms(1)]])
  with assms(2) have rest: "length (filter (rule_says icc m False) ?items)
      + length (filter (is_missing m) (map fst ?items)) = 1"
    by (simp add: baseline_length)
  show ?thesis
    using assms(2) rest
    by (simp add: evaluate_dict [OF assms(1) sc] literal_88_89 initial_evaluation_def)
qed

theorem eight_of_nine_scores_88_89_witness:
  "rule_returns (is_control_compliant minimums) eight_of_nine_policy
     (compliance_standards default_checker)
   \<and> length (filter (rule_says (is_control_compliant minimums) eight_of_nine_policy True)
        (compliance_standards default_checker)) = 8
   \<and> (\<exists>ev. fst (evaluate_policy_compliance (is_control_compliant minimums) default_checker
                  (PDict eight_of_nine_policy)) = Inr ev
           \<and> length (compliant_controls ev) = 8
           \<and> length (non_compliant_controls ev) + length (missing_controls ev) = 1
           \<and> compliance_score ev = PFloat (double_of_rat (8889 / 100))
           \<and> compliance_score ev = PFloat (6255077669952553 / 70368744177664)
           \<and> overall_status ev = ''NON_COMPLIANT'')"
proof -
  have h1: "rule_returns (is_control_compliant minimums) eight_of_nine_policy
      (compliance_standards (init PNone (PStr ''us-east-1'')))"
    by (rule is_control_compliant_returns)
  have h2: "length (filter (rule_says (is_control_compliant minimums) eight_of_nine_policy True)
      (compliance_standards (init PNone (PStr ''us-east-1'')))) = 8"
    using says_true_eight by (simp only: default_checker_def)
  from h1 h2 eight_of_nine_scores_88_89 [OF h1 h2] show ?thesis
    unfolding default_checker_def by (intro conjI)
qed

text \<open>
  Claim C7 says that the evaluator raises for no input policy. A policy that is neither
  \<open>None\<close> nor a dictionary, such as the integer 5, reaches \<open>policy.get\<close> on line 24,
  which raises \<open>AttributeError\<close>.
\<close>

theorem malformed_policy_raises:
  "fst (evaluate_policy_compliance (is_control_compliant minimums) default_checker (PInt 5))
     = Inl AttributeError"
  by (simp add: evaluate_policy_compliance_def default_checker_def init_def)

lemma evaluate_returns_for_rule:
  assumes "policy = PNone
           \<or> (\<exists>m. policy = PDict m \<and> rule_returns icc m (compliance_standards (init pn rg)))"
  shows "\<exists>ev. fst (evaluate_policy_compliance icc (init pn rg) policy) = Inr ev"
  using assms
proof
  assume "policy = PNone"
  then show ?thesis
    by (simp add: evaluate_policy_compliance_def)
next
  assume "\<exists>m. policy = PDict m \<and> rule_returns icc m (compliance_standards (init pn rg))"
  then obtain m where m: "policy = PDict m"
    and r: "rule_returns icc m (compliance_standards (init pn rg))"
    by blast
  from evaluate_init_dict [OF r] obtain ev where
    "evaluate_policy_compliance icc (init pn rg) (PDict m) = (Inr ev, init pn rg)"
    by blast
  with m show ?thesis by simp
qed

text \<open>
  Claim C7, amended. The evaluator returns a report, raising nothing, when the policy is
  \<open>None\<close> and when it is a dictionary, whatever values the dictionary holds: under the
  rule of the specification, in either direction of the numeric controls, a value of
  the wrong type is recorded as non-compliant and a value \<open>None\<close> as missing.
\<close>

theorem evaluate_returns_report:
  assumes "policy = PNone \<or> (\<exists>m. policy = PDict m)"
  shows "\<exists>ev. fst (evaluate_policy_compliance (is_control_compliant dir) (init pn rg) policy)
                 = Inr ev"
proof (rule evaluate_returns_for_rule)
  from assms
  show "policy = PNone
        \<or> (\<exists>m. policy = PDict m
              \<and> rule_returns (is_control_compliant dir) m (compliance_standards (init pn rg)))"
    using is_control_compliant_returns by blast
qed

theorem evaluate_returns_report_witness:
  "(PDict malformed_values_policy = PNone
    \<or> (\<exists>m. PDict malformed_values_policy = PDict m))
   \<and> (\<exists>ev. fst (evaluate_policy_compliance (is_control_compliant minimums)
                  (init PNone (PStr ''us-east-1'')) (PDict malformed_values_policy)) = Inr ev)
   \<and> non_compliant_controls
        (projr (fst (evaluate_policy_compliance (is_control_compliant minimums)
                  (init PNone (PStr ''us-east-1'')) (PDict malformed_values_policy))))
      = [''minimum_password_length'', ''require_symbols'']
   \<and> missing_controls
        (projr (fst (evaluate_policy_compliance (is_control_compliant minimums)
                  (init PNone (PStr ''us-east-1'')) (PDict malformed_values_policy))))
      = [''hard_expiry'']"
proof -
  let ?R = "is_control_compliant minimums"
  let ?items = "compliance_standards (init PNone (PStr ''us-east-1''))"
  have h: "PDict malformed_values_policy = PNone
    \<or> (\<exists>m. PDict malformed_values_policy = PDict m)"
    by blast
  note ret = evaluate_returns_report [OF h, of minimums PNone "PStr ''us-east-1''"]
  have no: "map fst (filter (rule_says ?R malformed_values_policy False) ?items)
      = [''minimum_password_length'', ''require_symbols'']"
    by (simp add: init_def baseline_policy_def malformed_values_policy_def rule_says_def
        is_control_compliant_def minimums_def)
  have mi: "filter (is_missing malformed_values_policy) (map fst ?items) = [''hard_expiry'']"
    by (simp add: init_def baseline_policy_def malformed_values_policy_def is_missing_def)
  obtain s where "evaluate_policy_compliance ?R (init PNone (PStr ''us-east-1''))
      (PDict malformed_values_policy) =
     (Inr (initial_evaluation
            \<lparr> compliant_controls := map fst (filter (rule_says ?R malformed_values_policy True) ?items),
              non_compliant_controls :=
                map fst (filter (rule_says ?R malformed_values_policy False) ?items),
              missing_controls := filter (is_missing malformed_values_policy) (map fst ?items),
              compliance_score := PFloat s,
              overall_status := (if 90 \<le> s then ''COMPLIANT'' else ''NON_COMPLIANT'') \<rparr>),
      init PNone (PStr ''us-east-1''))"
    using evaluate_init_dict [OF is_control_compliant_returns] by blast
  then have lists: "non_compliant_controls
        (projr (fst (evaluate_policy_compliance ?R
                  (init PNone (PStr ''us-east-1'')) (PDict malformed_values_policy))))
      = [''minimum_password_length'', ''require_symbols'']"
    "missing_controls
        (projr (fst (evaluate_policy_compliance ?R
                  (init PNone (PStr ''us-east-1'')) (PDict malformed_values_policy))))
      = [''hard_expiry'']"
    by (simp_all add: no mi)
  from h ret lists show ?thesis
    by (intro conjI)
qed

text \<open>
  Claim C8. The baseline built by the initialiser has exactly nine distinct control
  names, each required value is a boolean or an integer, and it does not depend on the
  arguments of the initialiser. A call of the evaluator leaves the checker, and so its
  baseline, as it was, for every policy.
\<close>

theorem baseline_fixed_and_unchanged:
  "map fst (compliance_standards (init pn rg)) =
     [''minimum_password_length'', ''require_symbols'', ''require_numbers'',
      ''require_uppercase'', ''require_lowercase'', ''max_password_age'',
      ''password_reuse_prevention'', ''allow_users_to_change_password'', ''hard_expiry'']
   \<and> length (compliance_standards (init pn rg)) = 9
   \<and> distinct (map fst (compliance_standards (init pn rg)))
   \<and> list_all is_bool_or_int (map snd (compliance_standards (init pn rg)))
   \<and> compliance_standards (init pn' rg') = compliance_standards (init pn rg)
   \<and> snd (evaluate_policy_compliance icc self policy) = self
   \<and> compliance_standards (snd (evaluate_policy_compliance icc (init pn rg) policy))
       = compliance_standards (init pn rg)"
proof -
  have "list_all is_bool_or_int (map snd (compliance_standards (init pn rg)))"
    by (simp add: init_def)
  moreover have "compliance_standards (init pn' rg') = compliance_standards (init pn rg)"
    by (simp add: init_def)
  ultimately show ?thesis
    using baseline_names [of pn rg] baseline_length [of pn rg] baseline_distinct [of pn rg]
    by (simp add: evaluate_frame)
qed

text \<open>
  Claim C9. For the policy \<open>None\<close> the two per-standard statuses stay \<open>UNKNOWN\<close>, the
  policy type stays \<open>unknown\<close>, and the lists of compliant and non-compliant controls
  are empty: the report differs from the initial one in \<open>missing_controls\<close> and
  \<open>overall_status\<close> only.
\<close>

theorem absent_policy_other_fields:
  "\<exists>ev. fst (evaluate_policy_compliance icc (init pn rg) PNone) = Inr ev
     \<and> soc2_cc6_2_status ev = ''UNKNOWN''
     \<and> nist_ia_5_status ev = ''UNKNOWN''
     \<and> policy_type ev = ''unknown''
     \<and> compliant_controls ev = []
     \<and> non_compliant_controls ev = []
     \<and> ev = initial_evaluation
              \<lparr> missing_controls := missing_controls ev,
                overall_status := overall_status ev \<rparr>"
  by (simp add: evaluate_policy_compliance_def initial_evaluation_def)

text \<open>
  Claim C10. For a policy that is a dictionary, the lengths of the three lists of the
  report add up to nine, the lists are pairwise disjoint, and the count that the loop
  hands to the score is the length of \<open>compliant_controls\<close>.
\<close>

theorem report_lists_partition_baseline:
  assumes "rule_returns icc m (compliance_standards (init pn rg))"
  shows "\<exists>ev ev' compliant_count s.
           classify_controls icc (PDict m) (compliance_standards (init pn rg))
             (initial_evaluation, 0) = Inr (ev', compliant_count)
           \<and> fst (evaluate_policy_compliance icc (init pn rg) (PDict m)) = Inr ev
           \<and> compliant_controls ev = compliant_controls ev'
           \<and> compliant_count = int (length (compliant_controls ev))
           \<and> compliance_score_of compliant_count 9 = Inr s
           \<and> compliance_score ev = PFloat s
           \<and> length (compliant_controls ev) + length (non_compliant_controls ev)
               + length (missing_controls ev) = 9
           \<and> set (compliant_controls ev) \<inter> set (non_compliant_controls ev) = {}
           \<and> set (compliant_controls ev) \<inter> set (missing_controls ev) = {}
           \<and> set (non_compliant_controls ev) \<inter> set (missing_controls ev) = {}"
proof -
  let ?items = "compliance_standards (init pn rg)"
  let ?A = "map fst (filter (rule_says icc m True) ?items)"
  let ?B = "map fst (filter (rule_says icc m False) ?items)"
  let ?C = "filter (is_missing m) (map fst ?items)"
  obtain s where s: "compliance_score_of (int (length (filter (rule_says icc m True) ?items))) 9
      = Inr s"
    and ev: "evaluate_policy_compliance icc (init pn rg) (PDict m) =
     (Inr (initial_evaluation
            \<lparr> compliant_controls := ?A,
              non_compliant_controls := ?B,
              missing_controls := ?C,
              compliance_score := PFloat s,
              overall_status := (if 90 \<le> s then ''COMPLIANT'' else ''NON_COMPLIANT'') \<rparr>),
      init pn rg)"
    using evaluate_init_dict [OF assms] by blast
  note ms = verdict_lists_mset [OF assms]
  have "length (?A @ ?B @ ?C) = length (map fst ?items)"
    by (rule mset_eq_length [OF ms])
  then have len: "length ?A + length ?B + length ?C = 9"
    by (simp add: baseline_length)
  have "distinct (?A @ ?B @ ?C)"
    using mset_eq_imp_distinct_iff [OF ms] baseline_distinct by blast
  then have dj: "set ?A \<inter> set ?B = {}" "set ?A \<inter> set ?C = {}" "set ?B \<inter> set ?C = {}"
    by auto
  show ?thesis
    unfolding ev classify_controls_dict [OF assms]
    using s len dj by (simp add: initial_evaluation_def)
qed

theorem report_lists_partition_baseline_witness:
  "rule_returns (is_control_compliant minimums) partial_policy
     (compliance_standards (init PNone (PStr ''us-east-1'')))
   \<and> (\<exists>ev ev' compliant_count s.
           classify_controls (is_control_compliant minimums) (PDict partial_policy)
             (compliance_standards (init PNone (PStr ''us-east-1'')))
             (initial_evaluation, 0) = Inr (ev', compliant_count)
           \<and> fst (evaluate_policy_compliance (is_control_compliant minimums)
                    (init PNone (PStr ''us-east-1'')) (PDict partial_policy)) = Inr ev
           \<and> compliant_controls ev = compliant_controls ev'
           \<and> compliant_count = int (length (compliant_controls ev))
           \<and> compliance_score_of compliant_count 9 = Inr s
           \<and> compliance_score ev = PFloat s
           \<and> length (compliant_controls ev) + length (non_compliant_controls ev)
               + length (missing_controls ev) = 9
           \<and> set (compliant_controls ev) \<inter> set (non_compliant_controls ev) = {}
           \<and> set (compliant_controls ev) \<inter> set (missing_controls ev) = {}
           \<and> set (non_compliant_controls ev) \<inter> set (missing_controls ev) = {})"
proof -
  have h: "rule_returns (is_control_compliant minimums) partial_policy
      (compliance_standards (init PNone (PStr ''us-east-1'')))"
    by (rule is_control_compliant_returns)
  from h report_lists_partition_baseline [OF h] show ?thesis
    by (rule conjI)
qed

end
